theory Spec2Isabelle
  imports Main
begin

section \<open>The graphql-jit example server of graphql-helix\<close>

text \<open>
  The source is \<^verbatim>\<open>examples/graphql-jit/server.ts\<close>: one express handler that reads the
  request's query, looks the query up in an LRU cache, and hands three callbacks
  (\<^verbatim>\<open>parse\<close>, \<^verbatim>\<open>validate\<close>, \<^verbatim>\<open>execute\<close>) to \<^verbatim>\<open>processRequest\<close>. Each callback keeps its
  artifact in a local variable of the handler and in the cache. The result of
  \<^verbatim>\<open>processRequest\<close> is then delivered: a single response, a server-sent event stream, or
  nothing.

  The parser, the validator and the compiler are libraries; they are parameters of the
  model (\<open>prs\<close>, \<open>vld\<close>, \<open>cmp\<close>). Mutation is explicit state passing: the handler's three
  local variables are a record, and so is the server (the cache and a log of the
  library calls made so far). Requests are handled one after the other. The two
  \<^verbatim>\<open>console.log\<close> calls and the start of the server (lines 115-119) are left out.
\<close>

subsection \<open>Artifacts\<close>

text \<open>
  \<^verbatim>\<open>compileQuery\<close> returns either a compiled query, an object with a \<^verbatim>\<open>query\<close> function, or
  an execution result that carries the compiler's errors; \<^verbatim>\<open>isCompiledQuery\<close> tells them
  apart. Variables are a mapping from names to values.
\<close>

datatype ('rv, 'cv, 'val, 'r) compiled =
    CompiledQuery "'rv \<Rightarrow> 'cv \<Rightarrow> (string \<rightharpoonup> 'val) \<Rightarrow> 'r"
  | ExecutionResult 'r

text \<open>
  The cached value, and also the handler's three locals \<^verbatim>\<open>document\<close>,
  \<^verbatim>\<open>validationErrors\<close>, \<^verbatim>\<open>compiledQuery\<close> (lines 33-35). \<open>None\<close> is \<^verbatim>\<open>undefined\<close>. Every
  artifact is an object or an array, so the tests \<^verbatim>\<open>!document\<close>, \<^verbatim>\<open>!validationErrors\<close>
  and \<^verbatim>\<open>!compiledQuery\<close> hold exactly for \<open>None\<close>: an empty array of errors is truthy.
\<close>

record ('d, 'e, 'c) entry =
  document :: "'d option"
  validationErrors :: "'e list option"
  compiledQuery :: "'c option"

text \<open>The library calls a request makes, in order.\<close>

datatype call = ParseCall | ValidateCall | CompileCall | QueryCall

text \<open>
  The cache is \<^verbatim>\<open>lru(1000, 3600000)\<close> of tiny-lru. Its \<^verbatim>\<open>set(key, value)\<close> stores the value
  given as the value of the key, in place of an earlier one; \<^verbatim>\<open>get(key)\<close> returns the
  stored value or \<^verbatim>\<open>undefined\<close>. The cache also drops whole entries: one older than
  3600000 ms when it is looked up, and the least recently used one when a new key is
  set while 1000 keys are held, which is never the key being set. Dropping is not part
  of \<open>cacheSet\<close>; where a statement is about the states the server can reach, a dropped
  entry is a step of its own (\<open>run\<close> below).
\<close>

record ('d, 'e, 'c) server =
  cache :: "string \<rightharpoonup> ('d, 'e, 'c) entry"
  calls :: "call list"

definition cacheSet ::
  "string \<Rightarrow> ('d, 'e, 'c) entry \<Rightarrow> ('d, 'e, 'c) server \<Rightarrow> ('d, 'e, 'c) server" where
  "cacheSet key v s = s\<lparr>cache := (cache s)(key \<mapsto> v)\<rparr>"

definition called :: "call \<Rightarrow> ('d, 'e, 'c) server \<Rightarrow> ('d, 'e, 'c) server" where
  "called c s = s\<lparr>calls := calls s @ [c]\<rparr>"

text \<open>Line 31, \<^verbatim>\<open>query || ""\<close>: an absent query and the empty query are both falsy.\<close>

definition cacheKeyOf :: "string option \<Rightarrow> string" where
  "cacheKeyOf query = (case query of None \<Rightarrow> [] | Some q \<Rightarrow> (if q = [] then [] else q))"

text \<open>Lines 32-35: the locals start from the cached entry, each \<^verbatim>\<open>undefined\<close> without one.\<close>

definition readLocals :: "(string \<rightharpoonup> ('d, 'e, 'c) entry) \<Rightarrow> string \<Rightarrow> ('d, 'e, 'c) entry" where
  "readLocals c key =
     (case c key of
        None \<Rightarrow> \<lparr>document = None, validationErrors = None, compiledQuery = None\<rparr>
      | Some cached \<Rightarrow>
          \<lparr>document = document cached, validationErrors = validationErrors cached,
           compiledQuery = compiledQuery cached\<rparr>)"

subsection \<open>The three callbacks\<close>

text \<open>
  Lines 44-51. The parser throws on a syntax error (\<open>Inl\<close>): the assignment and the
  \<^verbatim>\<open>cache.set\<close> after it are then not reached.
\<close>

definition parseCb ::
  "(string \<Rightarrow> 'o \<Rightarrow> 'pe + 'd) \<Rightarrow> string \<Rightarrow> string \<Rightarrow> 'o \<Rightarrow>
   ('d, 'e, 'c) entry \<times> ('d, 'e, 'c) server \<Rightarrow>
   ('pe + 'd) \<times> ('d, 'e, 'c) entry \<times> ('d, 'e, 'c) server" where
  "parseCb prs cacheKey source options ls =
     (case ls of (l, s) \<Rightarrow>
        (case document l of
           None \<Rightarrow>
             (case prs source options of
                Inl err \<Rightarrow> (Inl err, l, called ParseCall s)
              | Inr d \<Rightarrow>
                  (Inr d, l\<lparr>document := Some d\<rparr>,
                   cacheSet cacheKey
                     \<lparr>document = Some d, validationErrors = None, compiledQuery = None\<rparr>
                     (called ParseCall s)))
         | Some d \<Rightarrow> (Inr d, l, s)))"

text \<open>Lines 52-65. The entry written holds the local \<^verbatim>\<open>document\<close>, not the argument.\<close>

definition validateCb ::
  "('sch \<Rightarrow> 'd \<Rightarrow> 'rl \<Rightarrow> 'ti \<Rightarrow> 'vo \<Rightarrow> 'e list) \<Rightarrow> string \<Rightarrow>
   'sch \<Rightarrow> 'd \<Rightarrow> 'rl \<Rightarrow> 'ti \<Rightarrow> 'vo \<Rightarrow>
   ('d, 'e, 'c) entry \<times> ('d, 'e, 'c) server \<Rightarrow>
   'e list \<times> ('d, 'e, 'c) entry \<times> ('d, 'e, 'c) server" where
  "validateCb vld cacheKey schema documentAST rules typeInfo options ls =
     (case ls of (l, s) \<Rightarrow>
        (case validationErrors l of
           None \<Rightarrow>
             (let errs = vld schema documentAST rules typeInfo options
              in (errs, l\<lparr>validationErrors := Some errs\<rparr>,
                  cacheSet cacheKey
                    \<lparr>document = document l, validationErrors = Some errs, compiledQuery = None\<rparr>
                    (called ValidateCall s)))
         | Some errs \<Rightarrow> (errs, l, s)))"

text \<open>
  Lines 79-87: a compiled query is run on the root value, the context and the variables
  (\<^verbatim>\<open>variableValues || {}\<close>); anything else is returned as it is.
\<close>

definition runCompiled ::
  "('rv, 'cv, 'val, 'r) compiled \<Rightarrow> 'rv \<Rightarrow> 'cv \<Rightarrow> (string \<rightharpoonup> 'val) option \<Rightarrow>
   ('d, 'e, ('rv, 'cv, 'val, 'r) compiled) server \<Rightarrow>
   'r \<times> ('d, 'e, ('rv, 'cv, 'val, 'r) compiled) server" where
  "runCompiled c rootValue contextValue variableValues s =
     (case c of
        CompiledQuery query \<Rightarrow>
          (query rootValue contextValue
             (case variableValues of None \<Rightarrow> Map.empty | Some vs \<Rightarrow> vs),
           called QueryCall s)
      | ExecutionResult r \<Rightarrow> (r, s))"

text \<open>Lines 66-88.\<close>

definition executeCb ::
  "('sch \<Rightarrow> 'd \<Rightarrow> string option \<Rightarrow> ('rv, 'cv, 'val, 'r) compiled) \<Rightarrow> string \<Rightarrow>
   'sch \<Rightarrow> 'd \<Rightarrow> 'rv \<Rightarrow> 'cv \<Rightarrow> (string \<rightharpoonup> 'val) option \<Rightarrow> string option \<Rightarrow>
   ('d, 'e, ('rv, 'cv, 'val, 'r) compiled) entry \<times>
     ('d, 'e, ('rv, 'cv, 'val, 'r) compiled) server \<Rightarrow>
   'r \<times> ('d, 'e, ('rv, 'cv, 'val, 'r) compiled) entry \<times>
     ('d, 'e, ('rv, 'cv, 'val, 'r) compiled) server" where
  "executeCb cmp cacheKey schema documentAst rootValue contextValue variableValues operationName ls =
     (case ls of (l, s) \<Rightarrow>
        (case compiledQuery l of
           None \<Rightarrow>
             (let c = cmp schema documentAst operationName;
                  s1 = cacheSet cacheKey
                         \<lparr>document = document l, validationErrors = validationErrors l,
                          compiledQuery = Some c\<rparr>
                         (called CompileCall s)
              in (case runCompiled c rootValue contextValue variableValues s1 of
                    (r, s2) \<Rightarrow> (r, l\<lparr>compiledQuery := Some c\<rparr>, s2)))
         | Some c \<Rightarrow>
             (case runCompiled c rootValue contextValue variableValues s of
                (r, s2) \<Rightarrow> (r, l, s2))))"

subsection \<open>The driver\<close>

text \<open>
  The arguments that \<^verbatim>\<open>processRequest\<close> hands to the callbacks besides the schema, the
  document, the variables and the operation name.
\<close>

record ('o, 'rl, 'ti, 'vo, 'rv, 'cv) callArgs =
  parseOptions :: 'o
  rules :: 'rl
  typeInfo :: 'ti
  validateOptions :: 'vo
  rootValue :: 'rv
  contextValue :: 'cv

text \<open>
  What the handler tells apart in a result (lines 91-111): its type is \<^verbatim>\<open>"RESPONSE"\<close>, with a
  status, headers and a payload, or \<^verbatim>\<open>"PUSH"\<close>, or anything else.
\<close>

datatype 'p result = RESPONSE nat "(string \<times> string) list" 'p | PUSH | UNSUPPORTED

text \<open>
  Modelled from the spec: the payloads that \<^verbatim>\<open>processRequest\<close> answers with are made in
  graphql-helix, not in the sources. By section 7 of the spec a parse error and the
  validation errors are surfaced as client errors, all of the latter; the data of an
  execution is the payload of a single response.
\<close>

datatype ('pe, 'e, 'r) payload =
  MissingQuery | SyntaxError 'pe | ValidationFailed "'e list" | Data 'r

text \<open>
  Modelled from the spec: the three variants of section 4.3 into which the outcome of
  an execution is classified. The classification itself is made in graphql-helix.
\<close>

datatype delivery = Single | Streaming | Unsupported

text \<open>
  Modelled from the spec: \<^verbatim>\<open>processRequest\<close> is a function of graphql-helix and is not among
  the sources. Section 4.2 of the spec gives the order in which it runs the callbacks:
  parse, and stop with a parse error when parsing fails; validate, and stop with the
  errors when there is one or more; then execute. Section 4.3 classifies what the
  execution returns as single, streaming or unsupported (\<open>kind\<close>). Client errors have
  status 400 and a single response has status 200 and no headers. A request without a
  query runs no callback.
\<close>

definition processRequest ::
  "('o, 'rl, 'ti, 'vo, 'rv, 'cv) callArgs \<Rightarrow> ('r \<Rightarrow> delivery) \<Rightarrow>
   string option \<Rightarrow> string option \<Rightarrow> (string \<rightharpoonup> 'val) option \<Rightarrow> 'sch \<Rightarrow>
   (string \<Rightarrow> 'o \<Rightarrow> 'st \<Rightarrow> ('pe + 'd) \<times> 'st) \<Rightarrow>
   ('sch \<Rightarrow> 'd \<Rightarrow> 'rl \<Rightarrow> 'ti \<Rightarrow> 'vo \<Rightarrow> 'st \<Rightarrow> 'e list \<times> 'st) \<Rightarrow>
   ('sch \<Rightarrow> 'd \<Rightarrow> 'rv \<Rightarrow> 'cv \<Rightarrow> (string \<rightharpoonup> 'val) option \<Rightarrow> string option \<Rightarrow> 'st \<Rightarrow> 'r \<times> 'st) \<Rightarrow>
   'st \<Rightarrow> ('pe, 'e, 'r) payload result \<times> 'st" where
  "processRequest a kind operationName query variables schema parse validate execute st =
     (case query of
        None \<Rightarrow> (RESPONSE 400 [] MissingQuery, st)
      | Some source \<Rightarrow>
          (case parse source (parseOptions a) st of
             (Inl err, st1) \<Rightarrow> (RESPONSE 400 [] (SyntaxError err), st1)
           | (Inr d, st1) \<Rightarrow>
               (case validate schema d (rules a) (typeInfo a) (validateOptions a) st1 of
                  (errs, st2) \<Rightarrow>
                    if errs \<noteq> [] then (RESPONSE 400 [] (ValidationFailed errs), st2)
                    else
                      (case execute schema d (rootValue a) (contextValue a) variables
                              operationName st2 of
                         (r, st3) \<Rightarrow>
                           (case kind r of
                              Single \<Rightarrow> (RESPONSE 200 [] (Data r), st3)
                            | Streaming \<Rightarrow> (PUSH, st3)
                            | Unsupported \<Rightarrow> (UNSUPPORTED, st3))))))"

text \<open>
  Lines 30-89: the cache key, the locals read from the cache, and the call of
  \<^verbatim>\<open>processRequest\<close> with the three callbacks. The locals are returned with the result.
\<close>

definition handleRequest ::
  "('o, 'rl, 'ti, 'vo, 'rv, 'cv) callArgs \<Rightarrow> ('r \<Rightarrow> delivery) \<Rightarrow>
   (string \<Rightarrow> 'o \<Rightarrow> 'pe + 'd) \<Rightarrow>
   ('sch \<Rightarrow> 'd \<Rightarrow> 'rl \<Rightarrow> 'ti \<Rightarrow> 'vo \<Rightarrow> 'e list) \<Rightarrow>
   ('sch \<Rightarrow> 'd \<Rightarrow> string option \<Rightarrow> ('rv, 'cv, 'val, 'r) compiled) \<Rightarrow> 'sch \<Rightarrow>
   string option \<Rightarrow> string option \<Rightarrow> (string \<rightharpoonup> 'val) option \<Rightarrow>
   ('d, 'e, ('rv, 'cv, 'val, 'r) compiled) server \<Rightarrow>
   ('pe, 'e, 'r) payload result \<times> ('d, 'e, ('rv, 'cv, 'val, 'r) compiled) entry \<times>
     ('d, 'e, ('rv, 'cv, 'val, 'r) compiled) server" where
  "handleRequest a kind prs vld cmp schema operationName query variables s =
     (let cacheKey = cacheKeyOf query
      in processRequest a kind operationName query variables schema
           (parseCb prs cacheKey) (validateCb vld cacheKey) (executeCb cmp cacheKey)
           (readLocals (cache s) cacheKey, s))"

text \<open>
  Requests for one query text, one after the other; each has its own arguments,
  operation name and variables.
\<close>

fun serve ::
  "('r \<Rightarrow> delivery) \<Rightarrow> (string \<Rightarrow> 'o \<Rightarrow> 'pe + 'd) \<Rightarrow>
   ('sch \<Rightarrow> 'd \<Rightarrow> 'rl \<Rightarrow> 'ti \<Rightarrow> 'vo \<Rightarrow> 'e list) \<Rightarrow>
   ('sch \<Rightarrow> 'd \<Rightarrow> string option \<Rightarrow> ('rv, 'cv, 'val, 'r) compiled) \<Rightarrow> 'sch \<Rightarrow> string option \<Rightarrow>
   (('o, 'rl, 'ti, 'vo, 'rv, 'cv) callArgs \<times> string option \<times> (string \<rightharpoonup> 'val) option) list \<Rightarrow>
   ('d, 'e, ('rv, 'cv, 'val, 'r) compiled) server \<Rightarrow>
   (('pe, 'e, 'r) payload result \<times> ('d, 'e, ('rv, 'cv, 'val, 'r) compiled) entry) list \<times>
     ('d, 'e, ('rv, 'cv, 'val, 'r) compiled) server" where
  "serve kind prs vld cmp schema query [] s = ([], s)"
| "serve kind prs vld cmp schema query ((a, operationName, variables) # rest) s =
     (case handleRequest a kind prs vld cmp schema operationName query variables s of
        (result, l, s1) \<Rightarrow>
          (case serve kind prs vld cmp schema query rest s1 of
             (outs, s2) \<Rightarrow> ((result, l) # outs, s2)))"

text \<open>
  What the server goes through: requests, each with its own query, and entries dropped
  by the cache. An entry that the cache drops while a request sets a new key belongs to
  another key, which that request neither reads nor writes, so dropping it before the
  request gives the same cache.
\<close>

datatype ('o, 'rl, 'ti, 'vo, 'rv, 'cv, 'val) step =
    Request "('o, 'rl, 'ti, 'vo, 'rv, 'cv) callArgs" "string option" "string option"
      "(string \<rightharpoonup> 'val) option"
  | Dropped string

fun run ::
  "('r \<Rightarrow> delivery) \<Rightarrow> (string \<Rightarrow> 'o \<Rightarrow> 'pe + 'd) \<Rightarrow>
   ('sch \<Rightarrow> 'd \<Rightarrow> 'rl \<Rightarrow> 'ti \<Rightarrow> 'vo \<Rightarrow> 'e list) \<Rightarrow>
   ('sch \<Rightarrow> 'd \<Rightarrow> string option \<Rightarrow> ('rv, 'cv, 'val, 'r) compiled) \<Rightarrow> 'sch \<Rightarrow>
   ('o, 'rl, 'ti, 'vo, 'rv, 'cv, 'val) step list \<Rightarrow>
   ('d, 'e, ('rv, 'cv, 'val, 'r) compiled) server \<Rightarrow>
   ('d, 'e, ('rv, 'cv, 'val, 'r) compiled) server" where
  "run kind prs vld cmp schema [] s = s"
| "run kind prs vld cmp schema (Request a operationName query variables # rest) s =
     run kind prs vld cmp schema rest
       (snd (snd (handleRequest a kind prs vld cmp schema operationName query variables s)))"
| "run kind prs vld cmp schema (Dropped key # rest) s =
     run kind prs vld cmp schema rest (s\<lparr>cache := (cache s)(key := None)\<rparr>)"



subsection \<open>Delivery\<close>

text \<open>What the handler does to the response object \<^verbatim>\<open>res\<close>, in order.\<close>

datatype 'p resop =
    Send string
  | SetHeader string string
  | Status nat
  | Json 'p
  | WriteHead nat "(string \<times> string) list"
  | Write string

text \<open>
  Modelled from the spec: the \<^verbatim>\<open>subscribe\<close> and \<^verbatim>\<open>unsubscribe\<close> of a PUSH result are made by
  \<^verbatim>\<open>processRequest\<close> and are not among the sources. By section 4.4 of the spec the
  underlying sequence emits until it completes or is cancelled, and by section 5
  cancelling is idempotent and harmless afterwards: a sequence hands values to the
  subscriber only while it is \<open>Active\<close>.
\<close>

datatype pstate = Active | Cancelled | Finished

text \<open>
  Modelled from the spec: \<^verbatim>\<open>result.unsubscribe\<close>, the cancellation of section 5. It ends
  an active sequence and changes nothing otherwise.
\<close>

definition unsubscribe :: "pstate \<Rightarrow> pstate" where
  "unsubscribe p = (case p of Active \<Rightarrow> Cancelled | Cancelled \<Rightarrow> Cancelled | Finished \<Rightarrow> Finished)"

text \<open>Modelled from the spec: the natural completion of the sequence (section 4.4).\<close>

definition complete :: "pstate \<Rightarrow> pstate" where
  "complete p = (case p of Active \<Rightarrow> Finished | Cancelled \<Rightarrow> Cancelled | Finished \<Rightarrow> Finished)"

text \<open>
  Modelled from the spec: whether \<^verbatim>\<open>result.subscribe\<close> still hands emitted values to the
  subscriber (section 4.4: emitting does not continue after the session is closed).
\<close>

definition delivers :: "pstate \<Rightarrow> bool" where
  "delivers p = (p = Active)"

text \<open>
  One connection: what \<^verbatim>\<open>res\<close> has received, whether the handler has registered its
  listener for the request's \<^verbatim>\<open>close\<close> event (line 102), how often \<^verbatim>\<open>result.unsubscribe\<close>
  has been called, and the sequence subscribed to (line 106), if any.
\<close>

record 'p conn =
  sent :: "'p resop list"
  onClose :: bool
  unsubscribes :: nat
  stream :: "pstate option"

definition newConn :: "'p conn" where
  "newConn = \<lparr>sent = [], onClose = False, unsubscribes = 0, stream = None\<rparr>"

text \<open>Lines 91-111.\<close>

definition deliver :: "'p result \<Rightarrow> 'p conn \<Rightarrow> 'p conn" where
  "deliver result c =
     (case result of
        RESPONSE status headers payload \<Rightarrow>
          c\<lparr>sent := sent c @ map (\<lambda>(name, value). SetHeader name value) headers
                        @ [Status status, Json payload]\<rparr>
      | PUSH \<Rightarrow>
          c\<lparr>sent := sent c @
                 [WriteHead 200
                    [(''Content-Type'', ''text/event-stream''), (''Connection'', ''keep-alive''),
                     (''Cache-Control'', ''no-cache'')]],
            onClose := True,
            stream := Some Active\<rparr>
      | UNSUPPORTED \<Rightarrow> c)"

text \<open>
  What happens to an open connection afterwards: the sequence emits a value, the
  sequence completes, or the client's connection closes.
\<close>

datatype 'v event = Emitted 'v | Completed | Closed

text \<open>
  Lines 102-108. The subscriber writes each value it is handed as one event,
  \<^verbatim>\<open>data: <json>\n\n\<close>, where \<open>js\<close> is \<^verbatim>\<open>JSON.stringify\<close>. The close listener calls
  \<^verbatim>\<open>result.unsubscribe\<close> and tests nothing first.
\<close>

fun connStep :: "('v \<Rightarrow> string) \<Rightarrow> 'p conn \<Rightarrow> 'v event \<Rightarrow> 'p conn" where
  "connStep js c (Emitted v) =
     (case stream c of
        None \<Rightarrow> c
      | Some p \<Rightarrow>
          (if delivers p then c\<lparr>sent := sent c @ [Write (''data: '' @ js v @ [CHR 0x0A, CHR 0x0A])]\<rparr>
           else c))"
| "connStep js c Completed = c\<lparr>stream := map_option complete (stream c)\<rparr>"
| "connStep js c Closed =
     (if onClose c
      then c\<lparr>unsubscribes := Suc (unsubscribes c), stream := map_option unsubscribe (stream c)\<rparr>
      else c)"

text \<open>
  Lines 19-113, the whole handler: the GraphiQL page when \<^verbatim>\<open>shouldRenderGraphiQL\<close> says so
  (\<open>graphiql\<close>; \<open>page\<close> is what \<^verbatim>\<open>renderGraphiQL\<close> returns), else the request is processed
  and its result delivered.
\<close>

definition handler ::
  "bool \<Rightarrow> string \<Rightarrow> ('o, 'rl, 'ti, 'vo, 'rv, 'cv) callArgs \<Rightarrow> ('r \<Rightarrow> delivery) \<Rightarrow>
   (string \<Rightarrow> 'o \<Rightarrow> 'pe + 'd) \<Rightarrow>
   ('sch \<Rightarrow> 'd \<Rightarrow> 'rl \<Rightarrow> 'ti \<Rightarrow> 'vo \<Rightarrow> 'e list) \<Rightarrow>
   ('sch \<Rightarrow> 'd \<Rightarrow> string option \<Rightarrow> ('rv, 'cv, 'val, 'r) compiled) \<Rightarrow> 'sch \<Rightarrow>
   string option \<Rightarrow> string option \<Rightarrow> (string \<rightharpoonup> 'val) option \<Rightarrow>
   ('d, 'e, ('rv, 'cv, 'val, 'r) compiled) server \<times> ('pe, 'e, 'r) payload conn \<Rightarrow>
   ('d, 'e, ('rv, 'cv, 'val, 'r) compiled) server \<times> ('pe, 'e, 'r) payload conn" where
  "handler graphiql page a kind prs vld cmp schema operationName query variables sc =
     (case sc of (s, c) \<Rightarrow>
        if graphiql then (s, c\<lparr>sent := sent c @ [Send page]\<rparr>)
        else
          (case handleRequest a kind prs vld cmp schema operationName query variables s of
             (result, l, s1) \<Rightarrow> (s1, deliver result c)))"

subsection \<open>Notions used in the statements\<close>

text \<open>
  The plan the execute callback dispatches on at line 79: the cached one, or else the
  one it has just compiled.
\<close>

definition planOf ::
  "('sch \<Rightarrow> 'd \<Rightarrow> string option \<Rightarrow> 'c) \<Rightarrow> 'sch \<Rightarrow> 'd \<Rightarrow> string option \<Rightarrow> ('d, 'e, 'c) entry \<Rightarrow> 'c" where
  "planOf cmp schema documentAst operationName l =
     (case compiledQuery l of None \<Rightarrow> cmp schema documentAst operationName | Some c \<Rightarrow> c)"

text \<open>How often the parser, the validator and the compiler have run.\<close>

definition counts :: "('d, 'e, 'c) server \<Rightarrow> nat \<times> nat \<times> nat" where
  "counts s = (count_list (calls s) ParseCall, count_list (calls s) ValidateCall,
               count_list (calls s) CompileCall)"

text \<open>A connection whose sequence, if it has one, hands over no more values.\<close>

definition quiet :: "'p conn \<Rightarrow> bool" where
  "quiet c = (case stream c of None \<Rightarrow> True | Some p \<Rightarrow> \<not> delivers p)"

subsection \<open>A small schema to run the model on\<close>

text \<open>
  The schema of the spec's scenario: \<^verbatim>\<open>{ hello }\<close> resolves to \<^verbatim>\<open>world\<close>. Beside it,
  \<^verbatim>\<open>{ bye }\<close> parses and fails validation, \<^verbatim>\<open>{ hello @defer }\<close> validates and does not
  compile, and no other text parses. The parser's option drops locations from the
  document; the validator's rule, when on, rejects every document.
\<close>

definition helloParse :: "string \<Rightarrow> bool \<Rightarrow> string + string" where
  "helloParse source noLocation =
     (if source = ''{ hello }'' then Inr (if noLocation then ''hello'' else ''hello at 1:3'')
      else if source = ''{ bye }'' then Inr ''bye''
      else if source = ''{ hello @defer }'' then Inr ''hello @defer''
      else Inl ''Syntax Error'')"

definition helloValidate :: "unit \<Rightarrow> string \<Rightarrow> bool \<Rightarrow> unit \<Rightarrow> unit \<Rightarrow> string list" where
  "helloValidate schema d strict ti options =
     (if d = ''bye'' then [''Cannot query field bye'']
      else if strict then [''Rejected by rule'']
      else [])"

definition helloQuery :: "unit \<Rightarrow> unit \<Rightarrow> (string \<rightharpoonup> string) \<Rightarrow> string" where
  "helloQuery root ctx vs = ''{data:{hello:world}}''"

definition helloCompile ::
  "unit \<Rightarrow> string \<Rightarrow> string option \<Rightarrow> (unit, unit, string, string) compiled" where
  "helloCompile schema d operationName =
     (if d = ''hello'' \<or> d = ''hello at 1:3'' then CompiledQuery helloQuery
      else ExecutionResult ''{errors:[unsupported]}'')"

definition helloKind :: "string \<Rightarrow> delivery" where
  "helloKind r = Single"

definition plainArgs :: "(bool, bool, unit, unit, unit, unit) callArgs" where
  "plainArgs = \<lparr>parseOptions = False, rules = False, typeInfo = (), validateOptions = (),
                rootValue = (), contextValue = ()\<rparr>"

definition emptyServer :: "(string, string, (unit, unit, string, string) compiled) server" where
  "emptyServer = \<lparr>cache = Map.empty, calls = []\<rparr>"

text \<open>A server that holds, for one query text, a document and nothing else.\<close>

definition parsedServer ::
  "string \<Rightarrow> string \<Rightarrow> (string, string, (unit, unit, string, string) compiled) server" where
  "parsedServer q d =
     \<lparr>cache = [q \<mapsto> \<lparr>document = Some d, validationErrors = None, compiledQuery = None\<rparr>],
      calls = [ParseCall]\<rparr>"

text \<open>A server that holds a document and its validation result.\<close>

definition validatedServer ::
  "string \<Rightarrow> string \<Rightarrow> string list \<Rightarrow>
   (string, string, (unit, unit, string, string) compiled) server" where
  "validatedServer q d errs =
     \<lparr>cache = [q \<mapsto> \<lparr>document = Some d, validationErrors = Some errs, compiledQuery = None\<rparr>],
      calls = [ParseCall, ValidateCall]\<rparr>"



text \<open>An entry of this schema.\<close>

definition helloEntry ::
  "string option \<Rightarrow> string list option \<Rightarrow> (unit, unit, string, string) compiled option \<Rightarrow>
   (string, string, (unit, unit, string, string) compiled) entry" where
  "helloEntry d errs c = \<lparr>document = d, validationErrors = errs, compiledQuery = c\<rparr>"

text \<open>A server that has answered one request for \<^verbatim>\<open>{ hello }\<close>.\<close>

definition helloServer :: "(string, string, (unit, unit, string, string) compiled) server" where
  "helloServer =
     snd (snd (handleRequest plainArgs helloKind helloParse helloValidate helloCompile ()
                 None (Some ''{ hello }'') None emptyServer))"

section \<open>Properties\<close>

subsection \<open>Basic facts\<close>

lemma readLocals_entry [simp]:
  "readLocals c key =
     (case c key of
        None \<Rightarrow> \<lparr>document = None, validationErrors = None, compiledQuery = None\<rparr>
      | Some cached \<Rightarrow> cached)"
  by (simp add: readLocals_def split: option.splits)

lemma cacheKeyOf_Some [simp]: "cacheKeyOf (Some q) = q"
  by (simp add: cacheKeyOf_def)

lemma runCompiled_frame:
  "runCompiled c root ctx vars s = (r, s') \<Longrightarrow> cache s' = cache s \<and> counts s' = counts s"
  by (auto simp: runCompiled_def called_def counts_def split: compiled.splits)

subsection \<open>Delivery of a result that is neither a response nor a push\<close>

lemma foldl_connStep_idle:
  "\<not> onClose c \<Longrightarrow> stream c = None \<Longrightarrow> foldl (connStep js) c evs = c"
proof (induction evs arbitrary: c)
  case Nil
  then show ?case by simp
next
  case (Cons ev evs)
  then have "connStep js c ev = c" by (cases ev) simp_all
  with Cons show ?case by simp
qed

text \<open>
  Claim C1, as the code has it: for a result whose type is neither \<^verbatim>\<open>RESPONSE\<close> nor
  \<^verbatim>\<open>PUSH\<close> the handler's last branch is empty. The connection is left as it was: no
  header, status, body or event is written, no listener is registered, nothing is
  subscribed to, and on a fresh connection nothing is ever sent afterwards, whatever
  happens. The unsupported outcome is dropped, not reported.
\<close>

theorem unsupported_sends_nothing:
  "deliver UNSUPPORTED c = c
   \<and> sent (foldl (connStep js) (deliver UNSUPPORTED newConn) evs) = []"
  by (simp add: deliver_def foldl_connStep_idle newConn_def)

text \<open>
  The claim as the spec words it asks for some response on the transport. On a fresh
  connection there is none.
\<close>

theorem unsupported_dropped_counterexample:
  "sent (deliver UNSUPPORTED (newConn :: string conn)) = []
   \<and> \<not> onClose (deliver UNSUPPORTED (newConn :: string conn))
   \<and> stream (deliver UNSUPPORTED (newConn :: string conn)) = None"
  by (simp add: deliver_def newConn_def)

subsection \<open>The writes to the cache\<close>







lemma parseCb_other_keys:
  "key' \<noteq> key \<Longrightarrow> cache (snd (snd (parseCb prs key source opts (l, s)))) key' = cache s key'"
  by (simp add: parseCb_def cacheSet_def called_def split: option.splits sum.splits)

lemma validateCb_other_keys:
  "key' \<noteq> key \<Longrightarrow>
   cache (snd (snd (validateCb vld key schema d rls ti vo (l, s)))) key' = cache s key'"
  by (simp add: validateCb_def cacheSet_def called_def Let_def split: option.splits)

lemma executeCb_other_keys:
  "key' \<noteq> key \<Longrightarrow>
   cache (snd (snd (executeCb cmp key schema d root ctx vars op (l, s)))) key' = cache s key'"
  by (simp add: executeCb_def runCompiled_def cacheSet_def called_def Let_def
        split: option.splits compiled.splits)

lemma handleRequest_other_keys:
  assumes "k \<noteq> cacheKeyOf query"
    and "handleRequest a kind prs vld cmp schema op query vars s = (res, l, s1)"
  shows "cache s1 k = cache s k"
  using assms
  by (auto simp: handleRequest_def processRequest_def parseCb_def validateCb_def
        executeCb_def runCompiled_def cacheSet_def called_def Let_def
      split: option.splits sum.splits compiled.splits delivery.splits if_splits)




subsection \<open>The parse callback\<close>

text \<open>
  Claim C4: when the parser fails and no document is cached, the parse callback passes
  the failure on and writes nothing: the cache is as it was, only the parser's call is
  on record. The next request for the same text reads the same locals, so its parse
  callback calls the parser again, and again nothing is written. The entry is written
  only in the branch where the parser has returned a document.
\<close>

theorem failed_parse_not_cached:
  assumes "prs source options = Inl err" and "document (readLocals (cache s) key) = None"
  shows "parseCb prs key source options (readLocals (cache s) key, s)
           = (Inl err, readLocals (cache s) key, called ParseCall s)
       \<and> cache (called ParseCall s) = cache s
       \<and> parseCb prs key source options
             (readLocals (cache (called ParseCall s)) key, called ParseCall s)
           = (Inl err, readLocals (cache s) key, called ParseCall (called ParseCall s))"
  using assms by (simp add: parseCb_def called_def)

theorem failed_parse_not_cached_witness:
  "helloParse ''{ hello'' False = Inl ''Syntax Error''
   \<and> document (readLocals (cache emptyServer) ''{ hello'') = None
   \<and> cache (snd (snd (parseCb helloParse ''{ hello'' ''{ hello'' False
              (readLocals (cache emptyServer) ''{ hello'', emptyServer)))) = Map.empty
   \<and> calls (snd (snd (parseCb helloParse ''{ hello'' ''{ hello'' False
              (readLocals (cache (called ParseCall emptyServer)) ''{ hello'',
               called ParseCall emptyServer)))) = [ParseCall, ParseCall]"
proof -
  have fails: "helloParse ''{ hello'' False = Inl ''Syntax Error''"
    by (simp add: helloParse_def)
  have miss: "document (readLocals (cache emptyServer) ''{ hello'') = None"
    by (simp add: emptyServer_def)
  show ?thesis
    using fails miss
      failed_parse_not_cached [where prs = helloParse and source = "''{ hello''"
        and options = False and err = "''Syntax Error''" and s = emptyServer
        and key = "''{ hello''"]
    by (simp add: emptyServer_def called_def)
qed

subsection \<open>The validate callback\<close>



text \<open>
  Claim C9: a first request finds nothing cached, parses with its options and validates
  with its rules, type info and options. For a second request for the same text, which
  starts from the entry then cached, the parse callback returns the first request's
  document and the validate callback the first request's errors, for every parser,
  source and options and for every validator, schema, document, rules, type info and
  options: none of these is consulted, and the server is unchanged. This holds when the
  second request comes right after the first one's validation, and as well when the
  first one's execute callback has run in between.
\<close>

theorem cached_artifacts_ignore_arguments:
  assumes "document l = None" and "validationErrors l = None"
    and "parseCb prs key source opts (l, s) = (Inr d, l1, s1)"
    and "validateCb vld key schema d rls ti vo (l1, s1) = (errs, l2, s2)"
    and "executeCb cmp key schema d root ctx vars op (l2, s2) = (r, l3, s3)"
  shows "parseCb prs' key source' opts' (readLocals (cache s2) key, s2)
           = (Inr d, readLocals (cache s2) key, s2)
       \<and> validateCb vld' key schema' d' rls' ti' vo' (readLocals (cache s2) key, s2)
           = (errs, readLocals (cache s2) key, s2)
       \<and> parseCb prs' key source' opts' (readLocals (cache s3) key, s3)
           = (Inr d, readLocals (cache s3) key, s3)
       \<and> validateCb vld' key schema' d' rls' ti' vo' (readLocals (cache s3) key, s3)
           = (errs, readLocals (cache s3) key, s3)"
proof -
  from assms(1-4)
  have l2: "document l2 = Some d" "validationErrors l2 = Some errs"
    and c2: "cache s2 key
               = Some \<lparr>document = Some d, validationErrors = Some errs, compiledQuery = None\<rparr>"
    by (auto simp: validateCb_def parseCb_def called_def cacheSet_def Let_def
             split: sum.splits)
  from l2 c2 assms(5)
  have c3: "document (readLocals (cache s3) key) = Some d
            \<and> validationErrors (readLocals (cache s3) key) = Some errs"
    by (auto simp: executeCb_def runCompiled_def called_def cacheSet_def Let_def
             split: option.splits compiled.splits)
  from c2 have "parseCb prs' key source' opts' (readLocals (cache s2) key, s2)
                  = (Inr d, readLocals (cache s2) key, s2)"
    and "validateCb vld' key schema' d' rls' ti' vo' (readLocals (cache s2) key, s2)
           = (errs, readLocals (cache s2) key, s2)"
    by (simp_all add: parseCb_def validateCb_def)
  moreover from c3 have "parseCb prs' key source' opts' (readLocals (cache s3) key, s3)
                           = (Inr d, readLocals (cache s3) key, s3)"
    and "validateCb vld' key schema' d' rls' ti' vo' (readLocals (cache s3) key, s3)
           = (errs, readLocals (cache s3) key, s3)"
    by (simp_all add: parseCb_def validateCb_def)
  ultimately show ?thesis by blast
qed

text \<open>
  The first request parses with locations and validates without the rule; the second
  asks for no locations and for the rule, which on their own give another document and
  an error, and still receives the first request's document and empty error list.
\<close>

theorem cached_artifacts_ignore_arguments_witness:
  "helloParse ''{ hello }'' True = Inr ''hello''
   \<and> helloValidate () ''hello'' True () () = [''Rejected by rule'']
   \<and> parseCb helloParse ''{ hello }'' ''{ hello }'' True
       (readLocals (cache (validatedServer ''{ hello }'' ''hello at 1:3'' [])) ''{ hello }'',
        validatedServer ''{ hello }'' ''hello at 1:3'' [])
     = (Inr ''hello at 1:3'',
        readLocals (cache (validatedServer ''{ hello }'' ''hello at 1:3'' [])) ''{ hello }'',
        validatedServer ''{ hello }'' ''hello at 1:3'' [])
   \<and> validateCb helloValidate ''{ hello }'' () ''hello'' True () ()
       (readLocals (cache (validatedServer ''{ hello }'' ''hello at 1:3'' [])) ''{ hello }'',
        validatedServer ''{ hello }'' ''hello at 1:3'' [])
     = ([],
        readLocals (cache (validatedServer ''{ hello }'' ''hello at 1:3'' [])) ''{ hello }'',
        validatedServer ''{ hello }'' ''hello at 1:3'' [])
   \<and> fst (parseCb helloParse ''{ hello }'' ''{ hello }'' True
            (readLocals
               (cache (snd (snd (executeCb helloCompile ''{ hello }'' () ''hello at 1:3'' () ()
                  None None
                  (readLocals (cache (validatedServer ''{ hello }'' ''hello at 1:3'' []))
                     ''{ hello }'',
                   validatedServer ''{ hello }'' ''hello at 1:3'' [])))))
               ''{ hello }'',
             snd (snd (executeCb helloCompile ''{ hello }'' () ''hello at 1:3'' () ()
                  None None
                  (readLocals (cache (validatedServer ''{ hello }'' ''hello at 1:3'' []))
                     ''{ hello }'',
                   validatedServer ''{ hello }'' ''hello at 1:3'' [])))))
     = Inr ''hello at 1:3''"
proof -
  let ?l = "readLocals (cache emptyServer) ''{ hello }''"
  let ?s1 = "parsedServer ''{ hello }'' ''hello at 1:3''"
  let ?l1 = "readLocals (cache ?s1) ''{ hello }''"
  let ?s2 = "validatedServer ''{ hello }'' ''hello at 1:3'' []"
  let ?l2 = "readLocals (cache ?s2) ''{ hello }''"
  let ?x = "executeCb helloCompile ''{ hello }'' () ''hello at 1:3'' () () None None (?l2, ?s2)"
  have nodoc: "document ?l = None" and noerrs: "validationErrors ?l = None"
    by (simp_all add: emptyServer_def)
  have p1: "parseCb helloParse ''{ hello }'' ''{ hello }'' False (?l, emptyServer)
              = (Inr ''hello at 1:3'', ?l1, ?s1)"
    by (simp add: parseCb_def helloParse_def emptyServer_def parsedServer_def cacheSet_def
          called_def)
  have v1: "validateCb helloValidate ''{ hello }'' () ''hello at 1:3'' False () () (?l1, ?s1)
              = ([], ?l2, ?s2)"
    by (simp add: validateCb_def helloValidate_def parsedServer_def validatedServer_def
          cacheSet_def called_def Let_def)
  have e1: "?x = (fst ?x, fst (snd ?x), snd (snd ?x))"
    by simp
  have other: "helloParse ''{ hello }'' True = Inr ''hello''"
     "helloValidate () ''hello'' True () () = [''Rejected by rule'']"
    by (simp_all add: helloParse_def helloValidate_def)
  from cached_artifacts_ignore_arguments [where prs' = helloParse
      and source' = "''{ hello }''" and opts' = True and vld' = helloValidate
      and schema' = "()" and d' = "''hello''" and rls' = True and ti' = "()" and vo' = "()",
      OF nodoc noerrs p1 v1 e1]
  have "parseCb helloParse ''{ hello }'' ''{ hello }'' True (?l2, ?s2)
          = (Inr ''hello at 1:3'', ?l2, ?s2)"
    and "validateCb helloValidate ''{ hello }'' () ''hello'' True () () (?l2, ?s2)
          = ([], ?l2, ?s2)"
    and "parseCb helloParse ''{ hello }'' ''{ hello }'' True
           (readLocals (cache (snd (snd ?x))) ''{ hello }'', snd (snd ?x))
          = (Inr ''hello at 1:3'', readLocals (cache (snd (snd ?x))) ''{ hello }'',
             snd (snd ?x))"
    by blast+
  then have "parseCb helloParse ''{ hello }'' ''{ hello }'' True (?l2, ?s2)
               = (Inr ''hello at 1:3'', ?l2, ?s2)"
    and "validateCb helloValidate ''{ hello }'' () ''hello'' True () () (?l2, ?s2)
          = ([], ?l2, ?s2)"
    and "fst (parseCb helloParse ''{ hello }'' ''{ hello }'' True
                (readLocals (cache (snd (snd ?x))) ''{ hello }'', snd (snd ?x)))
          = Inr ''hello at 1:3''"
    by (simp_all only: fst_conv)
  with other show ?thesis by blast
qed

subsection \<open>The execute callback\<close>

text \<open>
  Claim C6: the execute callback dispatches on the plan, cached or just compiled. When
  the plan is not a compiled query, the callback returns the plan's value itself and
  the compiled function has not been called; when it is a compiled query, the callback
  returns what its function returns on the root value, the context and the variables,
  and the function has been called once.
\<close>

theorem compile_error_not_executed:
  assumes "executeCb cmp key schema d root ctx vars op (l, s) = (r, l', s')"
  shows "(planOf cmp schema d op l = ExecutionResult e \<longrightarrow>
            r = e \<and> count_list (calls s') QueryCall = count_list (calls s) QueryCall)
       \<and> (planOf cmp schema d op l = CompiledQuery f \<longrightarrow>
            r = f root ctx (case vars of None \<Rightarrow> Map.empty | Some vs \<Rightarrow> vs)
            \<and> count_list (calls s') QueryCall = Suc (count_list (calls s) QueryCall))"
  using assms
  by (auto simp: executeCb_def planOf_def runCompiled_def called_def cacheSet_def Let_def
           split: option.splits compiled.splits)

theorem compile_error_not_executed_witness:
  "planOf helloCompile () ''hello @defer'' None
       (readLocals (cache emptyServer) ''{ hello @defer }'')
     = ExecutionResult ''{errors:[unsupported]}''
   \<and> fst (executeCb helloCompile ''{ hello @defer }'' () ''hello @defer'' () () None None
            (readLocals (cache emptyServer) ''{ hello @defer }'', emptyServer))
     = ''{errors:[unsupported]}''
   \<and> count_list
       (calls (snd (snd (executeCb helloCompile ''{ hello @defer }'' () ''hello @defer'' () ()
                           None None
                           (readLocals (cache emptyServer) ''{ hello @defer }'', emptyServer)))))
       QueryCall = 0
   \<and> planOf helloCompile () ''hello'' None (readLocals (cache emptyServer) ''{ hello }'')
     = CompiledQuery helloQuery
   \<and> fst (executeCb helloCompile ''{ hello }'' () ''hello'' () () None None
            (readLocals (cache emptyServer) ''{ hello }'', emptyServer))
     = ''{data:{hello:world}}''
   \<and> count_list
       (calls (snd (snd (executeCb helloCompile ''{ hello }'' () ''hello'' () () None None
                           (readLocals (cache emptyServer) ''{ hello }'', emptyServer)))))
       QueryCall = 1"
proof -
  let ?l = "\<lparr>document = (None :: string option), validationErrors = (None :: string list option),
             compiledQuery = (None :: (unit, unit, string, string) compiled option)\<rparr>"
  have start: "readLocals (cache emptyServer) key = ?l" for key
    by (simp add: emptyServer_def)
  have bad: "planOf helloCompile () ''hello @defer'' None ?l
               = ExecutionResult ''{errors:[unsupported]}''"
    by (simp add: planOf_def helloCompile_def)
  have good: "planOf helloCompile () ''hello'' None ?l = CompiledQuery helloQuery"
    by (simp add: planOf_def helloCompile_def)
  have zero: "count_list (calls emptyServer) QueryCall = 0"
    by (simp add: emptyServer_def)
  let ?bad = "executeCb helloCompile ''{ hello @defer }'' () ''hello @defer'' () () None None
               (?l, emptyServer)"
  let ?good = "executeCb helloCompile ''{ hello }'' () ''hello'' () () None None
                (?l, emptyServer)"
  have a: "fst ?bad = ''{errors:[unsupported]}''
           \<and> count_list (calls (snd (snd ?bad))) QueryCall = 0"
    using bad zero
      compile_error_not_executed [where cmp = helloCompile and key = "''{ hello @defer }''"
        and schema = "()" and d = "''hello @defer''" and root = "()" and ctx = "()"
        and vars = None and op = None and l = ?l and s = emptyServer
        and r = "fst ?bad" and l' = "fst (snd ?bad)" and s' = "snd (snd ?bad)"
        and e = "''{errors:[unsupported]}''"]
    by simp
  have b: "fst ?good = ''{data:{hello:world}}''
           \<and> count_list (calls (snd (snd ?good))) QueryCall = 1"
    using good zero
      compile_error_not_executed [where cmp = helloCompile and key = "''{ hello }''"
        and schema = "()" and d = "''hello''" and root = "()" and ctx = "()"
        and vars = None and op = None and l = ?l and s = emptyServer
        and r = "fst ?good" and l' = "fst (snd ?good)" and s' = "snd (snd ?good)"
        and f = helloQuery]
    by (simp add: helloQuery_def)
  from a b bad good show ?thesis
    by (simp only: start)
qed

subsection \<open>Requests for one query text, one after the other\<close>

lemma handleRequest_miss:
  assumes "cache s q = None" and "prs q (parseOptions a) = Inr d"
    and "vld schema d (rules a) (typeInfo a) (validateOptions a) = []"
    and "handleRequest a kind prs vld cmp schema op (Some q) vars s = (res, l, s1)"
  shows "l = \<lparr>document = Some d, validationErrors = Some [],
               compiledQuery = Some (cmp schema d op)\<rparr>
       \<and> cache s1 q = Some l
       \<and> counts s1 = (case counts s of (p, v, c) \<Rightarrow> (Suc p, Suc v, Suc c))"
proof -
  let ?full = "\<lparr>document = Some d, validationErrors = Some [],
                 compiledQuery = Some (cmp schema d op)\<rparr>"
  let ?s0 = "cacheSet q ?full
               (called CompileCall
                  (cacheSet q \<lparr>document = Some d, validationErrors = Some [], compiledQuery = None\<rparr>
                     (called ValidateCall
                        (cacheSet q
                           \<lparr>document = Some d, validationErrors = None, compiledQuery = None\<rparr>
                           (called ParseCall s)))))"
  obtain r s2 where
    run: "runCompiled (cmp schema d op) (rootValue a) (contextValue a) vars ?s0 = (r, s2)"
    by (cases "runCompiled (cmp schema d op) (rootValue a) (contextValue a) vars ?s0") auto
  have fr: "cache s2 = cache ?s0 \<and> counts s2 = counts ?s0"
    using runCompiled_frame [OF run] .
  have "handleRequest a kind prs vld cmp schema op (Some q) vars s
          = (case kind r of Single \<Rightarrow> RESPONSE 200 [] (Data r) | Streaming \<Rightarrow> PUSH
               | Unsupported \<Rightarrow> UNSUPPORTED, ?full, s2)"
    using assms(1-3) run
    by (simp add: handleRequest_def processRequest_def parseCb_def validateCb_def executeCb_def
          Let_def split: delivery.splits)
  with assms(4) have "l = ?full" and "s1 = s2" by simp_all
  moreover have "cache ?s0 q = Some ?full" by (simp add: cacheSet_def called_def)
  moreover have "counts ?s0 = (case counts s of (p, v, c) \<Rightarrow> (Suc p, Suc v, Suc c))"
    by (simp add: counts_def cacheSet_def called_def)
  ultimately show ?thesis using fr by simp
qed

lemma handleRequest_hit:
  assumes "cache s q
             = Some \<lparr>document = Some d, validationErrors = Some [], compiledQuery = Some c\<rparr>"
    and "handleRequest a kind prs vld cmp schema op (Some q) vars s = (res, l, s1)"
  shows "l = \<lparr>document = Some d, validationErrors = Some [], compiledQuery = Some c\<rparr>
       \<and> cache s1 = cache s \<and> counts s1 = counts s"
proof -
  let ?full = "\<lparr>document = Some d, validationErrors = Some [], compiledQuery = Some c\<rparr>"
  obtain r s2 where run: "runCompiled c (rootValue a) (contextValue a) vars s = (r, s2)"
    by (cases "runCompiled c (rootValue a) (contextValue a) vars s") auto
  have "handleRequest a kind prs vld cmp schema op (Some q) vars s
          = (case kind r of Single \<Rightarrow> RESPONSE 200 [] (Data r) | Streaming \<Rightarrow> PUSH
               | Unsupported \<Rightarrow> UNSUPPORTED, ?full, s2)"
    using assms(1) run
    by (simp add: handleRequest_def processRequest_def parseCb_def validateCb_def executeCb_def
          Let_def split: delivery.splits)
  with assms(2) have "l = ?full" and "s1 = s2" by simp_all
  then show ?thesis using runCompiled_frame [OF run] by simp
qed

lemma serve_hit:
  assumes "cache s q
             = Some \<lparr>document = Some d, validationErrors = Some [], compiledQuery = Some c\<rparr>"
    and "serve kind prs vld cmp schema (Some q) reqs s = (outs, s')"
  shows "map (\<lambda>out. compiledQuery (snd out)) outs = replicate (length reqs) (Some c)
       \<and> counts s' = counts s"
  using assms
proof (induction reqs arbitrary: s outs s')
  case Nil
  then show ?case by simp
next
  case (Cons req reqs)
  obtain a op vars where req: "req = (a, op, vars)" by (cases req) auto
  obtain res l s1 where
    h: "handleRequest a kind prs vld cmp schema op (Some q) vars s = (res, l, s1)"
    by (cases "handleRequest a kind prs vld cmp schema op (Some q) vars s") auto
  obtain outs1 s2 where t: "serve kind prs vld cmp schema (Some q) reqs s1 = (outs1, s2)"
    by (cases "serve kind prs vld cmp schema (Some q) reqs s1") auto
  from handleRequest_hit [OF Cons.prems(1) h]
  have l: "l = \<lparr>document = Some d, validationErrors = Some [], compiledQuery = Some c\<rparr>"
    and c1: "cache s1 = cache s" and n1: "counts s1 = counts s" by simp_all
  from c1 Cons.prems(1)
  have "cache s1 q
          = Some \<lparr>document = Some d, validationErrors = Some [], compiledQuery = Some c\<rparr>"
    by simp
  from Cons.IH [OF this t]
  have ih: "map (\<lambda>out. compiledQuery (snd out)) outs1 = replicate (length reqs) (Some c)"
    and n2: "counts s2 = counts s1" by simp_all
  from Cons.prems(2) req h t have "outs = (res, l) # outs1" and "s' = s2" by simp_all
  with l ih n1 n2 show ?case by simp
qed

text \<open>
  Claim C3: take a query text with no entry in the cache, which the first request's
  options parse and whose document the first request's rules validate without error.
  Serve that request and any number of further requests for the same text, each with
  arguments, operation name and variables of its own. Then the parser, the validator
  and the compiler have each been called exactly once more than before, and every one
  of the requests has ended with the same plan, the one compiled for the first.
\<close>

theorem stages_run_once:
  assumes "cache s q = None" and "prs q (parseOptions a) = Inr d"
    and "vld schema d (rules a) (typeInfo a) (validateOptions a) = []"
    and "serve kind prs vld cmp schema (Some q) ((a, op, vars) # rest) s = (outs, s')"
  shows "count_list (calls s') ParseCall = Suc (count_list (calls s) ParseCall)
       \<and> count_list (calls s') ValidateCall = Suc (count_list (calls s) ValidateCall)
       \<and> count_list (calls s') CompileCall = Suc (count_list (calls s) CompileCall)
       \<and> map (\<lambda>out. compiledQuery (snd out)) outs
           = replicate (Suc (length rest)) (Some (cmp schema d op))"
proof -
  obtain res l s1 where
    h: "handleRequest a kind prs vld cmp schema op (Some q) vars s = (res, l, s1)"
    by (cases "handleRequest a kind prs vld cmp schema op (Some q) vars s") auto
  obtain outs1 s2 where t: "serve kind prs vld cmp schema (Some q) rest s1 = (outs1, s2)"
    by (cases "serve kind prs vld cmp schema (Some q) rest s1") auto
  from handleRequest_miss [OF assms(1-3) h]
  have l: "l = \<lparr>document = Some d, validationErrors = Some [],
                 compiledQuery = Some (cmp schema d op)\<rparr>"
    and c1: "cache s1 q = Some l"
    and n1: "counts s1 = (case counts s of (p, v, c) \<Rightarrow> (Suc p, Suc v, Suc c))"
    by simp_all
  from c1 l
  have "cache s1 q = Some \<lparr>document = Some d, validationErrors = Some [],
                            compiledQuery = Some (cmp schema d op)\<rparr>"
    by simp
  from serve_hit [OF this t]
  have ih: "map (\<lambda>out. compiledQuery (snd out)) outs1
              = replicate (length rest) (Some (cmp schema d op))"
    and n2: "counts s2 = counts s1" by simp_all
  from assms(4) h t have "outs = (res, l) # outs1" and "s' = s2" by simp_all
  with l ih n1 n2 show ?thesis by (simp add: counts_def)
qed

text \<open>
  Three requests for \<^verbatim>\<open>{ hello }\<close> on an empty cache: one call each of the parser, the
  validator and the compiler, three runs of the compiled query, three times the same
  plan and three times the same response.
\<close>

theorem stages_run_once_witness:
  "cache emptyServer ''{ hello }'' = None
   \<and> helloParse ''{ hello }'' (parseOptions plainArgs) = Inr ''hello at 1:3''
   \<and> helloValidate () ''hello at 1:3'' (rules plainArgs) (typeInfo plainArgs)
        (validateOptions plainArgs) = []
   \<and> calls (snd (serve helloKind helloParse helloValidate helloCompile () (Some ''{ hello }'')
                   [(plainArgs, None, None), (plainArgs, None, None), (plainArgs, None, None)]
                   emptyServer))
     = [ParseCall, ValidateCall, CompileCall, QueryCall, QueryCall, QueryCall]
   \<and> map (\<lambda>out. compiledQuery (snd out))
       (fst (serve helloKind helloParse helloValidate helloCompile () (Some ''{ hello }'')
               [(plainArgs, None, None), (plainArgs, None, None), (plainArgs, None, None)]
               emptyServer))
     = [Some (CompiledQuery helloQuery), Some (CompiledQuery helloQuery),
        Some (CompiledQuery helloQuery)]
   \<and> map fst
       (fst (serve helloKind helloParse helloValidate helloCompile () (Some ''{ hello }'')
               [(plainArgs, None, None), (plainArgs, None, None), (plainArgs, None, None)]
               emptyServer))
     = [RESPONSE 200 [] (Data ''{data:{hello:world}}''),
        RESPONSE 200 [] (Data ''{data:{hello:world}}''),
        RESPONSE 200 [] (Data ''{data:{hello:world}}'')]"
proof -
  let ?run = "serve helloKind helloParse helloValidate helloCompile () (Some ''{ hello }'')
                [(plainArgs, None, None), (plainArgs, None, None), (plainArgs, None, None)]
                emptyServer"
  have fresh: "cache emptyServer ''{ hello }'' = None"
    by (simp add: emptyServer_def)
  have parses: "helloParse ''{ hello }'' (parseOptions plainArgs) = Inr ''hello at 1:3''"
    by (simp add: helloParse_def plainArgs_def)
  have valid: "helloValidate () ''hello at 1:3'' (rules plainArgs) (typeInfo plainArgs)
                 (validateOptions plainArgs) = []"
    by (simp add: helloValidate_def plainArgs_def)
  have run: "?run = (fst ?run, snd ?run)"
    by simp
  have plan: "helloCompile () ''hello at 1:3'' None = CompiledQuery helloQuery"
    by (simp add: helloCompile_def)
  have plans: "map (\<lambda>out. compiledQuery (snd out)) (fst ?run)
                 = [Some (CompiledQuery helloQuery), Some (CompiledQuery helloQuery),
                    Some (CompiledQuery helloQuery)]"
    using stages_run_once [OF fresh parses valid run] plan
    by (simp add: numeral_3_eq_3)
  have log: "calls (snd ?run)
               = [ParseCall, ValidateCall, CompileCall, QueryCall, QueryCall, QueryCall]"
    by (simp add: handleRequest_def processRequest_def parseCb_def validateCb_def
          executeCb_def runCompiled_def cacheSet_def called_def Let_def emptyServer_def
          plainArgs_def helloParse_def helloValidate_def helloCompile_def helloKind_def)
  have outs: "map fst (fst ?run)
               = [RESPONSE 200 [] (Data ''{data:{hello:world}}''),
                  RESPONSE 200 [] (Data ''{data:{hello:world}}''),
                  RESPONSE 200 [] (Data ''{data:{hello:world}}'')]"
    by (simp add: handleRequest_def processRequest_def parseCb_def validateCb_def
          executeCb_def runCompiled_def cacheSet_def called_def Let_def emptyServer_def
          plainArgs_def helloParse_def helloValidate_def helloCompile_def helloKind_def
          helloQuery_def)
  from fresh parses valid plans log outs show ?thesis
    by blast
qed

subsection \<open>The cache key\<close>

lemma handleRequest_parse_calls:
  assumes "handleRequest a kind prs vld cmp schema op (Some q) vars s = (res, l, s1)"
  shows "count_list (calls s1) ParseCall
           = count_list (calls s) ParseCall
             + (if document (readLocals (cache s) q) = None then 1 else 0)"
  using assms
  by (auto simp: handleRequest_def processRequest_def parseCb_def validateCb_def
        executeCb_def runCompiled_def cacheSet_def called_def Let_def
      split: option.splits sum.splits compiled.splits delivery.splits if_splits)

lemma handleRequest_parsed:
  assumes "cache s q = None" and "prs q (parseOptions a) = Inr d"
    and "handleRequest a kind prs vld cmp schema op (Some q) vars s = (res, l, s1)"
  shows "document l = Some d \<and> cache s1 q = Some l"
  using assms
  by (auto simp: handleRequest_def processRequest_def parseCb_def validateCb_def
        executeCb_def runCompiled_def cacheSet_def called_def Let_def
      split: option.splits sum.splits compiled.splits delivery.splits if_splits)

text \<open>
  A request without a query runs no callback: the entry under the empty key, which line
  32 looks up for it, has no part in its answer, and nothing is written.
\<close>

lemma no_query_leaves_cache:
  "handleRequest a kind prs vld cmp schema op None vars s
     = (RESPONSE 400 [] MissingQuery, readLocals (cache s) [], s)"
  by (simp add: handleRequest_def processRequest_def cacheKeyOf_def)

text \<open>
  Claim C7: a request with the query string \<open>q\<close>, which parses, is handled on a server
  that holds no entry for \<open>q\<close> nor for \<open>q'\<close>; a request with the query string \<open>q'\<close>
  follows. The first request ends with its document among its artifacts. What the
  second request reads from the cache at its start is the first request's artifacts
  when \<open>q'\<close> and \<open>q\<close> are the same string, and nothing when they differ; and the second
  request calls the parser exactly when they differ. So the key is the string as it
  is, and two requests share an entry if and only if their strings are identical.
\<close>

theorem query_string_is_the_key:
  assumes "cache s q = None" and "cache s q' = None"
    and "prs q (parseOptions a) = Inr d"
    and "handleRequest a kind prs vld cmp schema op (Some q) vars s = (res, l, s1)"
    and "handleRequest a' kind prs vld cmp schema op' (Some q') vars' s1 = (res', l', s2)"
  shows "document l = Some d
       \<and> readLocals (cache s1) (cacheKeyOf (Some q'))
           = (if q' = q then l
              else \<lparr>document = None, validationErrors = None, compiledQuery = None\<rparr>)
       \<and> count_list (calls s2) ParseCall
           = count_list (calls s1) ParseCall + (if q' = q then 0 else 1)"
proof -
  from handleRequest_parsed [OF assms(1,3,4)]
  have l: "document l = Some d" and c: "cache s1 q = Some l"
    by blast+
  have other: "cache s1 q' = None" if "q' \<noteq> q"
    using handleRequest_other_keys [OF _ assms(4), of q'] that assms(2) by simp
  have reads: "readLocals (cache s1) (cacheKeyOf (Some q'))
                 = (if q' = q then l
                    else \<lparr>document = None, validationErrors = None, compiledQuery = None\<rparr>)"
    using c other by simp
  have "document (readLocals (cache s1) q') = (if q' = q then Some d else None)"
    using c l other by simp
  with handleRequest_parse_calls [OF assms(5)]
  have "count_list (calls s2) ParseCall
          = count_list (calls s1) ParseCall + (if q' = q then 0 else 1)"
    by simp
  with l reads show ?thesis by blast
qed

text \<open>
  After a request for \<^verbatim>\<open>{ hello }\<close>, a request for \<^verbatim>\<open>{hello}\<close>, which differs in white
  space only, reads nothing and has the parser called; a request for \<^verbatim>\<open>{ hello }\<close>
  reads the three artifacts and has not.
\<close>

theorem query_string_is_the_key_witness:
  "cache emptyServer ''{ hello }'' = None
   \<and> cache emptyServer ''{hello}'' = None
   \<and> helloParse ''{ hello }'' (parseOptions plainArgs) = Inr ''hello at 1:3''
   \<and> readLocals (cache helloServer) (cacheKeyOf (Some ''{hello}'')) = helloEntry None None None
   \<and> readLocals (cache helloServer) (cacheKeyOf (Some ''{ hello }''))
     = helloEntry (Some ''hello at 1:3'') (Some []) (Some (CompiledQuery helloQuery))
   \<and> count_list (calls helloServer) ParseCall = 1
   \<and> count_list
       (calls (snd (snd (handleRequest plainArgs helloKind helloParse helloValidate helloCompile
                           () None (Some ''{hello}'') None helloServer))))
       ParseCall = 2
   \<and> count_list
       (calls (snd (snd (handleRequest plainArgs helloKind helloParse helloValidate helloCompile
                           () None (Some ''{ hello }'') None helloServer))))
       ParseCall = 1"
proof -
  let ?first = "handleRequest plainArgs helloKind helloParse helloValidate helloCompile ()
                  None (Some ''{ hello }'') None emptyServer"
  let ?other = "handleRequest plainArgs helloKind helloParse helloValidate helloCompile ()
                  None (Some ''{hello}'') None helloServer"
  let ?same = "handleRequest plainArgs helloKind helloParse helloValidate helloCompile ()
                 None (Some ''{ hello }'') None helloServer"
  have fresh: "cache emptyServer ''{ hello }'' = None" "cache emptyServer ''{hello}'' = None"
    by (simp_all add: emptyServer_def)
  have parses: "helloParse ''{ hello }'' (parseOptions plainArgs) = Inr ''hello at 1:3''"
    by (simp add: helloParse_def plainArgs_def)
  have first: "?first = (fst ?first, fst (snd ?first), helloServer)"
    by (simp add: helloServer_def)
  have other: "?other = (fst ?other, fst (snd ?other), snd (snd ?other))"
    and same: "?same = (fst ?same, fst (snd ?same), snd (snd ?same))"
    by simp_all
  have l: "fst (snd ?first)
             = helloEntry (Some ''hello at 1:3'') (Some []) (Some (CompiledQuery helloQuery))"
    by (simp add: handleRequest_def processRequest_def parseCb_def validateCb_def
          executeCb_def runCompiled_def cacheSet_def called_def Let_def emptyServer_def
          plainArgs_def helloParse_def helloValidate_def helloCompile_def helloKind_def
          helloEntry_def)
  have n: "count_list (calls helloServer) ParseCall = 1"
    by (simp add: helloServer_def handleRequest_def processRequest_def parseCb_def
          validateCb_def executeCb_def runCompiled_def cacheSet_def called_def Let_def
          emptyServer_def plainArgs_def helloParse_def helloValidate_def helloCompile_def
          helloKind_def)
  from query_string_is_the_key [OF fresh(1) fresh(2) parses first other] l n
  have a: "readLocals (cache helloServer) (cacheKeyOf (Some ''{hello}''))
             = helloEntry None None None"
    and b: "count_list (calls (snd (snd ?other))) ParseCall = 2"
    by (simp_all add: helloEntry_def)
  from query_string_is_the_key [OF fresh(1) fresh(1) parses first same] l n
  have c: "readLocals (cache helloServer) (cacheKeyOf (Some ''{ hello }''))
             = helloEntry (Some ''hello at 1:3'') (Some []) (Some (CompiledQuery helloQuery))"
    and d: "count_list (calls (snd (snd ?same))) ParseCall = 1"
    by simp_all
  from fresh parses a b c d n show ?thesis by blast
qed

subsection \<open>Event streams\<close>

lemma onClose_connStep: "onClose (connStep js c ev) = onClose c"
  by (cases ev) (simp_all split: option.splits)

lemma onClose_foldl: "onClose (foldl (connStep js) c evs) = onClose c"
  by (induction evs arbitrary: c) (simp_all add: onClose_connStep)

lemma unsubscribes_no_close:
  "Closed \<notin> set evs \<Longrightarrow> unsubscribes (foldl (connStep js) c evs) = unsubscribes c"
proof (induction evs arbitrary: c)
  case Nil
  then show ?case by simp
next
  case (Cons ev evs)
  then have "unsubscribes (connStep js c ev) = unsubscribes c"
    by (cases ev) (simp_all split: option.splits)
  with Cons show ?case by simp
qed

lemma quiet_connStep:
  "quiet c \<Longrightarrow> quiet (connStep js c ev) \<and> sent (connStep js c ev) = sent c"
  by (cases ev)
     (auto simp: quiet_def delivers_def unsubscribe_def complete_def
           split: option.splits pstate.splits)

lemma quiet_foldl: "quiet c \<Longrightarrow> sent (foldl (connStep js) c evs) = sent c"
proof (induction evs arbitrary: c)
  case Nil
  then show ?case by simp
next
  case (Cons ev evs)
  from quiet_connStep [OF Cons.prems, of js ev] Cons.IH [of "connStep js c ev"]
  show ?case by simp
qed

lemma quiet_after_close: "onClose c \<Longrightarrow> quiet (connStep js c Closed)"
  by (auto simp: quiet_def delivers_def unsubscribe_def split: option.splits pstate.splits)

lemma sent_close: "sent (connStep js c Closed) = sent c"
  by simp

text \<open>
  Claim C8: a PUSH result is delivered on a connection; events \<open>pre\<close> happen, none of
  them a close; the client's connection closes, once; events \<open>post\<close> follow. Then
  \<^verbatim>\<open>result.unsubscribe\<close> has been called exactly once more than before the delivery, and
  the response has received nothing beyond what it had when the connection closed:
  no value emitted after the close is written.
\<close>

theorem disconnect_cancels_once:
  assumes "Closed \<notin> set pre" and "Closed \<notin> set post"
  shows "unsubscribes (foldl (connStep js) (deliver PUSH c) (pre @ Closed # post))
           = Suc (unsubscribes c)
       \<and> sent (foldl (connStep js) (deliver PUSH c) (pre @ Closed # post))
           = sent (foldl (connStep js) (deliver PUSH c) pre)"
proof -
  let ?open = "foldl (connStep js) (deliver PUSH c) pre"
  let ?closed = "connStep js ?open Closed"
  have on: "onClose ?open" by (simp add: onClose_foldl deliver_def)
  have "unsubscribes (deliver PUSH c) = unsubscribes c" by (simp add: deliver_def)
  then have u0: "unsubscribes ?open = unsubscribes c"
    using unsubscribes_no_close [OF assms(1), of js "deliver PUSH c"] by simp
  have u1: "unsubscribes ?closed = Suc (unsubscribes ?open)"
    using on by simp
  have u2: "unsubscribes (foldl (connStep js) ?closed post) = unsubscribes ?closed"
    by (rule unsubscribes_no_close [OF assms(2)])
  have s1: "sent ?closed = sent ?open"
    by (rule sent_close)
  have s2: "sent (foldl (connStep js) ?closed post) = sent ?closed"
    by (rule quiet_foldl [OF quiet_after_close [OF on]])
  have run: "foldl (connStep js) (deliver PUSH c) (pre @ Closed # post)
               = foldl (connStep js) ?closed post"
    by simp
  show ?thesis
    by (simp only: run u2 u1 u0 s2 s1)
qed

text \<open>
  One value is written, the client leaves, and the value that follows is not written.
\<close>

theorem disconnect_cancels_once_witness:
  "Closed \<notin> set [Emitted ''1'']
   \<and> Closed \<notin> set [Emitted ''2'', Completed]
   \<and> unsubscribes
       (foldl (connStep id) (deliver PUSH (newConn :: string conn))
          ([Emitted ''1''] @ Closed # [Emitted ''2'', Completed])) = 1
   \<and> sent
       (foldl (connStep id) (deliver PUSH (newConn :: string conn))
          ([Emitted ''1''] @ Closed # [Emitted ''2'', Completed]))
     = [WriteHead 200
          [(''Content-Type'', ''text/event-stream''), (''Connection'', ''keep-alive''),
           (''Cache-Control'', ''no-cache'')],
        Write (''data: 1'' @ [CHR 0x0A, CHR 0x0A])]"
proof -
  have pre: "Closed \<notin> set [Emitted ''1'']"
    and post: "Closed \<notin> set [Emitted ''2'', Completed]"
    by simp_all
  have before: "sent (foldl (connStep id) (deliver PUSH (newConn :: string conn)) [Emitted ''1''])
                  = [WriteHead 200
                       [(''Content-Type'', ''text/event-stream''), (''Connection'', ''keep-alive''),
                        (''Cache-Control'', ''no-cache'')],
                     Write (''data: 1'' @ [CHR 0x0A, CHR 0x0A])]"
    by (simp add: deliver_def newConn_def delivers_def)
  have none: "unsubscribes (newConn :: string conn) = 0"
    by (simp add: newConn_def)
  from disconnect_cancels_once [OF pre post, of id "newConn :: string conn"] before none pre post
  show ?thesis by (simp only:) simp
qed

text \<open>
  Claim C10: on a connection on which a PUSH result has been delivered, whatever has
  happened since, a close of the client's connection calls \<^verbatim>\<open>result.unsubscribe\<close>: the
  listener tests nothing. This holds in particular after the sequence has completed: it
  is then no longer active, and the close still calls \<^verbatim>\<open>result.unsubscribe\<close>.
\<close>

theorem close_always_unsubscribes:
  "unsubscribes (connStep js (foldl (connStep js) (deliver PUSH c) evs) Closed)
     = Suc (unsubscribes (foldl (connStep js) (deliver PUSH c) evs))
   \<and> stream (foldl (connStep js) (deliver PUSH c) [Completed]) = Some Finished
   \<and> unsubscribes (foldl (connStep js) (deliver PUSH c) [Completed, Closed])
       = Suc (unsubscribes c)"
proof -
  have "onClose (foldl (connStep js) (deliver PUSH c) evs)"
    by (simp add: onClose_foldl deliver_def)
  then show ?thesis by (simp add: deliver_def complete_def)
qed

subsection \<open>The spec's scenario\<close>

text \<open>
  The query \<^verbatim>\<open>{ hello }\<close> on an empty cache: the whole handler answers with status 200
  and the data, and leaves all three artifacts in the cache. A second request is
  answered alike, and only the compiled query runs again.
\<close>

lemma hello_first_request:
  "handler False page plainArgs helloKind helloParse helloValidate helloCompile () None
     (Some ''{ hello }'') None (emptyServer, newConn)
   = (\<lparr>cache = [''{ hello }'' \<mapsto>
                  \<lparr>document = Some ''hello at 1:3'', validationErrors = Some [],
                   compiledQuery = Some (CompiledQuery helloQuery)\<rparr>],
       calls = [ParseCall, ValidateCall, CompileCall, QueryCall]\<rparr>,
      \<lparr>sent = [Status 200, Json (Data ''{data:{hello:world}}'')], onClose = False,
       unsubscribes = 0, stream = None\<rparr>)"
  by (simp add: handler_def handleRequest_def processRequest_def parseCb_def validateCb_def
        executeCb_def runCompiled_def cacheSet_def called_def deliver_def Let_def
        emptyServer_def newConn_def plainArgs_def helloParse_def helloValidate_def
        helloCompile_def helloKind_def helloQuery_def)

lemma hello_second_request:
  "handler False page plainArgs helloKind helloParse helloValidate helloCompile () None
     (Some ''{ hello }'') None
     (\<lparr>cache = [''{ hello }'' \<mapsto>
                  \<lparr>document = Some ''hello at 1:3'', validationErrors = Some [],
                   compiledQuery = Some (CompiledQuery helloQuery)\<rparr>],
       calls = [ParseCall, ValidateCall, CompileCall, QueryCall]\<rparr>,
      newConn)
   = (\<lparr>cache = [''{ hello }'' \<mapsto>
                  \<lparr>document = Some ''hello at 1:3'', validationErrors = Some [],
                   compiledQuery = Some (CompiledQuery helloQuery)\<rparr>],
       calls = [ParseCall, ValidateCall, CompileCall, QueryCall, QueryCall]\<rparr>,
      \<lparr>sent = [Status 200, Json (Data ''{data:{hello:world}}'')], onClose = False,
       unsubscribes = 0, stream = None\<rparr>)"
  by (simp add: handler_def handleRequest_def processRequest_def parseCb_def validateCb_def
        executeCb_def runCompiled_def cacheSet_def called_def deliver_def Let_def
        newConn_def plainArgs_def helloKind_def helloQuery_def)

end
